theory Spec2Isabelle
  imports Complex_Main
begin

section \<open>A shallow embedding of the DCF valuation engine\<close>

text \<open>
  The embedded functions are those of \<^verbatim>\<open>advanced_dcf_calculator.py\<close>. An
  \<^verbatim>\<open>Optional[float]\<close> is a \<^typ>\<open>real option\<close>. Python's floats are read at three levels
  of detail, each where a property needs it.
  \<^item> The functions whose result is a closed formula are read over \<^typ>\<open>real\<close>: the values
    are exact, every \<^verbatim>\<open>/\<close> goes through \<open>py_div\<close> and every \<^verbatim>\<open>**\<close> through \<open>py_pow\<close>, so
    that \<^verbatim>\<open>ZeroDivisionError\<close> and \<^verbatim>\<open>OverflowError\<close> are results of the model and the
    guards of the source are proved, not assumed.
  \<^item> Where rounding decides a property, a value is a \<open>float64\<close>: a finite double, an
    infinity or the not-a-number, with the operations rounded to the nearest double
    (ties to even). The two zeros of IEEE 754 are not distinguished.
  \<^item> The sensitivity grid computes with numpy's \<^verbatim>\<open>float64\<close>, whose operations raise
    nothing. Its arithmetic is a parameter of the grid's functions, so that what is proved
    of the grid holds for every arithmetic, the rounded one included.
\<close>

subsection \<open>Errors and partial operations\<close>

datatype py_error = ZeroDivisionError | IndexError | OverflowError

definition py_div :: "real \<Rightarrow> real \<Rightarrow> py_error + real" where
  "py_div a b = (if b = 0 then Inl ZeroDivisionError else Inr (a / b))"

text \<open>
  \<^verbatim>\<open>x ** n\<close> for a float \<open>x\<close> and a non-negative \<^verbatim>\<open>int\<close> \<open>n\<close>. CPython hands the power to
  the C library and raises \<^verbatim>\<open>OverflowError\<close> when the result is too large for a double,
  that is when the exact power rounds beyond the largest double
  \<open>(2 ^ 53 - 1) * 2 ^ 971\<close>; a power that rounds to zero is returned as \<open>0.0\<close>.
\<close>

definition pow_overflow :: "real \<Rightarrow> bool" where
  "pow_overflow p \<longleftrightarrow> 2 ^ 1024 - 2 ^ 970 \<le> \<bar>p\<bar>"

definition pow_to_zero :: "real \<Rightarrow> bool" where
  "pow_to_zero p \<longleftrightarrow> \<bar>p\<bar> \<le> 1 / 2 ^ 1075"

definition py_pow :: "real \<Rightarrow> nat \<Rightarrow> py_error + real" where
  "py_pow x n =
     (let p = x ^ n
      in if pow_overflow p then Inl OverflowError
         else if pow_to_zero p then Inr 0
         else Inr p)"

text \<open>Sequencing of two fallible steps: the first error raised is the one that escapes.\<close>

fun and_then :: "py_error + 'a \<Rightarrow> ('a \<Rightarrow> py_error + 'b) \<Rightarrow> py_error + 'b" where
  "and_then (Inl e) f = Inl e"
| "and_then (Inr x) f = f x"

text \<open>A list of fallible results, evaluated left to right, stops at the first error.\<close>

fun collect :: "(py_error + 'a) list \<Rightarrow> py_error + 'a list" where
  "collect [] = Inr []"
| "collect (r # rs) = and_then r (\<lambda>x. and_then (collect rs) (\<lambda>xs. Inr (x # xs)))"

text \<open>\<^verbatim>\<open>xs[-1]\<close>: the last element, \<^verbatim>\<open>IndexError\<close> on the empty list.\<close>

definition last_item :: "'a list \<Rightarrow> py_error + 'a" where
  "last_item xs = (case xs of [] \<Rightarrow> Inl IndexError | _ # _ \<Rightarrow> Inr (last xs))"

text \<open>Standard output, as the list of the lines printed so far.\<close>

type_synonym stdout = "string list"

subsection \<open>Cost of capital\<close>

text \<open>\<^verbatim>\<open>calculate_tax_rate\<close>, lines 178-184.\<close>

definition calculate_tax_rate :: "real \<Rightarrow> real option \<Rightarrow> py_error + real" where
  "calculate_tax_rate ebit tax_expense =
     (case tax_expense of
        None \<Rightarrow> Inr (21 / 100)
      | Some te \<Rightarrow>
          if ebit \<le> 0 then Inr (21 / 100)
          else and_then (py_div te ebit) (\<lambda>tax_rate. Inr (max 0 (min tax_rate (5 / 10)))))"

text \<open>\<^verbatim>\<open>calculate_cost_of_debt\<close>, lines 187-198.\<close>

definition calculate_cost_of_debt :: "real \<Rightarrow> real option \<Rightarrow> real \<Rightarrow> py_error + real" where
  "calculate_cost_of_debt total_debt interest_expense tax_rate =
     (if total_debt = 0 then Inr 0
      else and_then
             (case interest_expense of
                None \<Rightarrow> Inr (4 / 100)
              | Some ie \<Rightarrow> if ie = 0 then Inr (4 / 100) else py_div ie total_debt)
             (\<lambda>pretax_cost. Inr (pretax_cost * (1 - tax_rate))))"

text \<open>\<^verbatim>\<open>calculate_cost_of_equity\<close>, lines 201-204.\<close>

definition calculate_cost_of_equity :: "real \<Rightarrow> real \<Rightarrow> real \<Rightarrow> real" where
  "calculate_cost_of_equity risk_free_rate beta equity_risk_premium =
     risk_free_rate + (beta * equity_risk_premium)"

text \<open>\<^verbatim>\<open>calculate_wacc\<close>, lines 207-218.\<close>

definition calculate_wacc :: "real \<Rightarrow> real \<Rightarrow> real \<Rightarrow> real \<Rightarrow> py_error + real" where
  "calculate_wacc cost_of_equity cost_of_debt market_cap total_debt =
     (let total_value = market_cap + total_debt in
      if total_value = 0 then Inr cost_of_equity
      else and_then (py_div market_cap total_value) (\<lambda>weight_equity.
           and_then (py_div total_debt total_value) (\<lambda>weight_debt.
           Inr ((weight_equity * cost_of_equity) + (weight_debt * cost_of_debt)))))"

subsection \<open>Cash flows\<close>

text \<open>
  \<^verbatim>\<open>calculate_fcff\<close>, lines 221-227. The test \<^verbatim>\<open>depreciation if depreciation else 0\<close>
  is on truthiness: both \<^verbatim>\<open>None\<close> and \<^verbatim>\<open>0\<close> give \<^verbatim>\<open>0\<close>.
\<close>

definition calculate_fcff :: "real \<Rightarrow> real \<Rightarrow> real option \<Rightarrow> real \<Rightarrow> real \<Rightarrow> real" where
  "calculate_fcff ebit tax_rate depreciation capex change_in_wc =
     (let nopat = ebit * (1 - tax_rate);
          depreciation' = (case depreciation of None \<Rightarrow> 0 | Some d \<Rightarrow> if d \<noteq> 0 then d else 0)
      in nopat + depreciation' - capex - change_in_wc)"

text \<open>
  \<^verbatim>\<open>forecast_fcff\<close>, lines 230-240. The loop runs \<^verbatim>\<open>year\<close> over
  \<^verbatim>\<open>range(1, forecast_years + 1)\<close>, the list \<open>[1..forecast_years]\<close>, and appends one
  amount per year; the exponent is a positive Python \<^verbatim>\<open>int\<close>, and a power that overflows
  ends the loop with \<^verbatim>\<open>OverflowError\<close>.
\<close>

fun forecast_loop :: "real \<Rightarrow> real \<Rightarrow> int list \<Rightarrow> real list \<Rightarrow> py_error + real list" where
  "forecast_loop base_fcff short_term_growth [] forecasted = Inr forecasted"
| "forecast_loop base_fcff short_term_growth (year # years) forecasted =
     and_then (py_pow (1 + short_term_growth) (nat year)) (\<lambda>p.
       forecast_loop base_fcff short_term_growth years (forecasted @ [base_fcff * p]))"

definition forecast_fcff :: "real \<Rightarrow> int \<Rightarrow> real option \<Rightarrow> py_error + real list" where
  "forecast_fcff base_fcff forecast_years short_term_growth =
     (let short_term_growth' = (case short_term_growth of None \<Rightarrow> 5 / 100 | Some g \<Rightarrow> g)
      in forecast_loop base_fcff short_term_growth' [1..forecast_years] [])"

subsection \<open>Valuation\<close>

text \<open>
  \<^verbatim>\<open>calculate_terminal_value\<close>, lines 243-250. The guard prints one line and returns
  the number \<^verbatim>\<open>0\<close>; the function raises nothing itself.
\<close>

definition calculate_terminal_value :: "real \<Rightarrow> real \<Rightarrow> real \<Rightarrow> stdout \<times> (py_error + real)" where
  "calculate_terminal_value fcff_final perpetual_growth wacc =
     (if wacc \<le> perpetual_growth
      then ([''Error: WACC must be greater than perpetual growth rate''], Inr 0)
      else ([], py_div (fcff_final * (1 + perpetual_growth)) (wacc - perpetual_growth)))"

text \<open>
  \<^verbatim>\<open>calculate_enterprise_value\<close>, lines 253-266. The loop enumerates the series from
  year 1, keeping the list of present values and their running total. Each discount
  factor is a power, which may overflow, and a divisor, which may be zero.
\<close>

fun discount_loop ::
  "real \<Rightarrow> nat \<Rightarrow> real list \<Rightarrow> real list \<Rightarrow> real \<Rightarrow> py_error + (real list \<times> real)" where
  "discount_loop wacc year [] pv_fcff_list pv_fcff_total = Inr (pv_fcff_list, pv_fcff_total)"
| "discount_loop wacc year (fcff # rest) pv_fcff_list pv_fcff_total =
     and_then (py_pow (1 + wacc) year) (\<lambda>factor.
     and_then (py_div fcff factor) (\<lambda>pv.
       discount_loop wacc (Suc year) rest (pv_fcff_list @ [pv]) (pv_fcff_total + pv)))"

definition calculate_enterprise_value ::
  "real list \<Rightarrow> real \<Rightarrow> real \<Rightarrow> py_error + (real \<times> real list \<times> real)" where
  "calculate_enterprise_value forecasted_fcff terminal_value wacc =
     and_then (discount_loop wacc 1 forecasted_fcff [] 0) (\<lambda>(pv_fcff_list, pv_fcff_total).
     and_then (py_pow (1 + wacc) (length forecasted_fcff)) (\<lambda>factor.
     and_then (py_div terminal_value factor) (\<lambda>pv_terminal.
       Inr (pv_fcff_total + pv_terminal, pv_fcff_list, pv_terminal))))"

text \<open>\<^verbatim>\<open>calculate_equity_value\<close>, lines 269-272.\<close>

definition calculate_equity_value :: "real \<Rightarrow> real \<Rightarrow> real \<Rightarrow> real" where
  "calculate_equity_value enterprise_value total_debt cash = enterprise_value - total_debt + cash"

text \<open>\<^verbatim>\<open>calculate_intrinsic_value_per_share\<close>, lines 275-281.\<close>

definition calculate_intrinsic_value_per_share :: "real \<Rightarrow> real \<Rightarrow> py_error + real" where
  "calculate_intrinsic_value_per_share equity_value shares_outstanding =
     (if shares_outstanding = 0 then Inr 0
      else py_div equity_value shares_outstanding)"

subsection \<open>Doubles\<close>

text \<open>
  A \<^verbatim>\<open>float\<close> as IEEE 754 has it: a finite value, an infinity or the not-a-number.
  \<open>round_double\<close> rounds a real to the nearest number with a 53-bit significand and an
  exponent of at least \<open>-1074\<close>, ties to the even significand: \<open>norm_up\<close> and \<open>norm_down\<close>
  scale the magnitude into \<open>[2 ^ 52, 2 ^ 53)\<close> (or stop at the exponent of the subnormal
  numbers), where rounding is rounding to an integer. \<open>rnd\<close> adds the overflow to an
  infinity.
\<close>

datatype float64 = Fin real | PInf | NInf | NaN

definition round_half_even :: "real \<Rightarrow> int" where
  "round_half_even x =
     (let f = \<lfloor>x\<rfloor>; d = x - of_int f
      in if d < 1 / 2 then f else if 1 / 2 < d then f + 1 else if even f then f else f + 1)"

function norm_up :: "real \<Rightarrow> int \<Rightarrow> real \<times> int" where
  "norm_up m e = (if 2 ^ 53 \<le> m then norm_up (m / 2) (e + 1) else (m, e))"
  by pat_completeness auto
termination
proof (relation "measure (\<lambda>(m, e). nat \<lceil>m\<rceil>)")
  show "wf (measure (\<lambda>(m, e). nat \<lceil>m\<rceil>))" by simp
next
  fix m :: real and e :: int
  assume a: "2 ^ 53 \<le> m"
  then have "m / 2 \<le> m - 1" by simp
  then have "\<lceil>m / 2\<rceil> \<le> \<lceil>m - 1\<rceil>" by (rule ceiling_mono)
  then have "\<lceil>m / 2\<rceil> < \<lceil>m\<rceil>" by simp
  moreover have "0 < \<lceil>m\<rceil>" using a by (simp add: ceiling_less_iff less_ceiling_iff)
  ultimately show "((m / 2, e + 1), (m, e)) \<in> measure (\<lambda>(m, e). nat \<lceil>m\<rceil>)"
    by simp
qed

function norm_down :: "real \<Rightarrow> int \<Rightarrow> real \<times> int" where
  "norm_down m e = (if m < 2 ^ 52 \<and> - 1074 < e then norm_down (2 * m) (e - 1) else (m, e))"
  by pat_completeness auto
termination
  by (relation "measure (\<lambda>(m, e). nat (e + 1074))") auto

declare norm_up.simps [simp del] norm_down.simps [simp del]

definition round_double :: "real \<Rightarrow> real" where
  "round_double x =
     (if x = 0 then 0
      else (case norm_up \<bar>x\<bar> 0 of (m1, e1) \<Rightarrow>
            (case norm_down m1 e1 of (m, e) \<Rightarrow>
               sgn x * (if 0 \<le> e then of_int (round_half_even m) * 2 ^ nat e
                        else of_int (round_half_even m) / 2 ^ nat (- e)))))"

definition inf_of :: "real \<Rightarrow> float64" where
  "inf_of s = (if 0 \<le> s then PInf else NInf)"

definition rnd :: "real \<Rightarrow> float64" where
  "rnd x = (let r = round_double x in if 2 ^ 1024 \<le> \<bar>r\<bar> then inf_of x else Fin r)"

text \<open>The values a \<^verbatim>\<open>float\<close> can hold: of the reals, the doubles only.\<close>

fun is_float64 :: "float64 \<Rightarrow> bool" where
  "is_float64 (Fin a) = (rnd a = Fin a)"
| "is_float64 x = True"

fun f_sgn :: "float64 \<Rightarrow> real" where
  "f_sgn (Fin a) = sgn a"
| "f_sgn PInf = 1"
| "f_sgn NInf = - 1"
| "f_sgn NaN = 0"

text \<open>Comparison: false whenever an operand is the not-a-number.\<close>

fun f_less :: "float64 \<Rightarrow> float64 \<Rightarrow> bool" where
  "f_less (Fin a) (Fin b) = (a < b)"
| "f_less NaN y = False"
| "f_less x NaN = False"
| "f_less NInf y = (y \<noteq> NInf)"
| "f_less x PInf = (x \<noteq> PInf)"
| "f_less x y = False"

definition f_le :: "float64 \<Rightarrow> float64 \<Rightarrow> bool" where
  "f_le x y \<longleftrightarrow> f_less x y \<or> (x = y \<and> x \<noteq> NaN)"

text \<open>Addition, subtraction, multiplication and division, none of which raises.\<close>

fun f_add :: "float64 \<Rightarrow> float64 \<Rightarrow> float64" where
  "f_add (Fin a) (Fin b) = rnd (a + b)"
| "f_add NaN y = NaN"
| "f_add x NaN = NaN"
| "f_add PInf NInf = NaN"
| "f_add NInf PInf = NaN"
| "f_add PInf y = PInf"
| "f_add NInf y = NInf"
| "f_add (Fin a) y = y"

fun f_neg :: "float64 \<Rightarrow> float64" where
  "f_neg (Fin a) = Fin (- a)"
| "f_neg PInf = NInf"
| "f_neg NInf = PInf"
| "f_neg NaN = NaN"

definition f_sub :: "float64 \<Rightarrow> float64 \<Rightarrow> float64" where
  "f_sub x y = f_add x (f_neg y)"

fun f_mul :: "float64 \<Rightarrow> float64 \<Rightarrow> float64" where
  "f_mul (Fin a) (Fin b) = rnd (a * b)"
| "f_mul NaN y = NaN"
| "f_mul x NaN = NaN"
| "f_mul x y = (if x = Fin 0 \<or> y = Fin 0 then NaN else inf_of (f_sgn x * f_sgn y))"

text \<open>
  Division as the processor has it. On a zero divisor the quotient is an infinity or the
  not-a-number; numpy returns it, while Python's own \<^verbatim>\<open>/\<close> raises before dividing.
\<close>

fun f_div :: "float64 \<Rightarrow> float64 \<Rightarrow> float64" where
  "f_div (Fin a) (Fin b) =
     (if b = 0 then (if a = 0 then NaN else inf_of a) else rnd (a / b))"
| "f_div NaN y = NaN"
| "f_div x NaN = NaN"
| "f_div (Fin a) y = Fin 0"
| "f_div x (Fin b) = inf_of (f_sgn x * (if 0 \<le> b then 1 else - 1))"
| "f_div x y = NaN"

definition py_div64 :: "float64 \<Rightarrow> float64 \<Rightarrow> py_error + float64" where
  "py_div64 x y = (if y = Fin 0 then Inl ZeroDivisionError else Inr (f_div x y))"

text \<open>numpy's power with a non-negative integer exponent: an overflow is an infinity.\<close>

fun f_pow :: "float64 \<Rightarrow> nat \<Rightarrow> float64" where
  "f_pow x 0 = Fin 1"
| "f_pow (Fin a) n = rnd (a ^ n)"
| "f_pow PInf n = PInf"
| "f_pow NInf n = (if even n then PInf else NInf)"
| "f_pow NaN n = NaN"

text \<open>
  \<^verbatim>\<open>calculate_wacc\<close>, lines 207-218, once more, with the values and the rounding of the
  doubles.
\<close>

definition calculate_wacc_float64 ::
  "float64 \<Rightarrow> float64 \<Rightarrow> float64 \<Rightarrow> float64 \<Rightarrow> py_error + float64" where
  "calculate_wacc_float64 cost_of_equity cost_of_debt market_cap total_debt =
     (let total_value = f_add market_cap total_debt in
      if total_value = Fin 0 then Inr cost_of_equity
      else and_then (py_div64 market_cap total_value) (\<lambda>weight_equity.
           and_then (py_div64 total_debt total_value) (\<lambda>weight_debt.
           Inr (f_add (f_mul weight_equity cost_of_equity) (f_mul weight_debt cost_of_debt)))))"

subsection \<open>Sensitivity grid\<close>

text \<open>
  The grid of \<^verbatim>\<open>create_visualizations\<close>, lines 307-324. The two axes come from
  \<^verbatim>\<open>np.linspace\<close>, so every value of the loop is a numpy \<^verbatim>\<open>float64\<close> and no operation
  raises: a division by zero or an overflow gives an infinity or the not-a-number. The
  arithmetic of numpy is the parameter \<open>A\<close>; \<open>ieee_arith\<close> is the rounded arithmetic of the
  doubles. The only exception of the loop is the \<^verbatim>\<open>IndexError\<close> of
  \<^verbatim>\<open>forecasted_fcff[-1]\<close> on an empty series.
\<close>

record np_arith =
  np_add :: "float64 \<Rightarrow> float64 \<Rightarrow> float64"
  np_sub :: "float64 \<Rightarrow> float64 \<Rightarrow> float64"
  np_mul :: "float64 \<Rightarrow> float64 \<Rightarrow> float64"
  np_div :: "float64 \<Rightarrow> float64 \<Rightarrow> float64"
  np_pow :: "float64 \<Rightarrow> nat \<Rightarrow> float64"
  np_lit :: "real \<Rightarrow> float64"

definition ieee_arith :: np_arith where
  "ieee_arith =
     \<lparr>np_add = f_add, np_sub = f_sub, np_mul = f_mul, np_div = f_div, np_pow = f_pow,
      np_lit = rnd\<rparr>"

text \<open>Python's \<^verbatim>\<open>min(a, b)\<close>: the first argument unless the second is smaller.\<close>

definition py_min :: "float64 \<Rightarrow> float64 \<Rightarrow> float64" where
  "py_min a b = (if f_less b a then b else a)"

text \<open>
  \<^verbatim>\<open>np.linspace(start, stop, num)\<close> as numpy computes it: the points \<open>i * step + start\<close>
  with \<open>step = (stop - start) / (num - 1)\<close>, the last one replaced by \<open>stop\<close>.
\<close>

definition linspace :: "np_arith \<Rightarrow> float64 \<Rightarrow> float64 \<Rightarrow> nat \<Rightarrow> float64 list" where
  "linspace A start stop num =
     (let ndiv = num - 1;
          delta = np_sub A stop start;
          y = map (\<lambda>i. Fin (real i)) [0..<num];
          y' = (if 0 < ndiv then
                  (let step = np_div A delta (Fin (real ndiv))
                   in if step = Fin 0
                      then map (\<lambda>v. np_mul A (np_div A v (Fin (real ndiv))) delta) y
                      else map (\<lambda>v. np_mul A v step) y)
                else map (\<lambda>v. np_mul A v delta) y);
          y'' = map (\<lambda>v. np_add A v start) y'
      in if 1 < num then y''[num - 1 := stop] else y'')"

definition wacc_range :: "np_arith \<Rightarrow> float64 \<Rightarrow> float64 list" where
  "wacc_range A wacc =
     linspace A (np_mul A wacc (np_lit A (8 / 10))) (np_mul A wacc (np_lit A (12 / 10))) 7"

definition growth_range :: "np_arith \<Rightarrow> float64 \<Rightarrow> float64 \<Rightarrow> float64 list" where
  "growth_range A perpetual_growth wacc =
     linspace A (np_mul A perpetual_growth (np_lit A (5 / 10)))
       (py_min (np_mul A perpetual_growth (np_lit A (15 / 10)))
               (np_mul A wacc (np_lit A (9 / 10)))) 7"

text \<open>
  The body of the inner loop, lines 315-324, for one pair \<open>(w, g)\<close>. \<^verbatim>\<open>sum\<close> adds the
  present values from the left, starting from 0.
\<close>

definition sensitivity_cell ::
  "np_arith \<Rightarrow> float64 list \<Rightarrow> float64 \<Rightarrow> float64 \<Rightarrow> float64 \<Rightarrow> float64 \<Rightarrow> float64
     \<Rightarrow> py_error + float64" where
  "sensitivity_cell A forecasted_fcff total_debt cash shares_outstanding w g =
     (if f_less g w then
        and_then (last_item forecasted_fcff) (\<lambda>fcff_final.
          let tv_sens = np_div A (np_mul A fcff_final (np_add A (Fin 1) g)) (np_sub A w g);
              pv_tv_sens =
                np_div A tv_sens (np_pow A (np_add A (Fin 1) w) (length forecasted_fcff));
              pv_fcff_sens =
                foldl (np_add A) (Fin 0)
                  (map (\<lambda>(idx, fcff). np_div A fcff (np_pow A (np_add A (Fin 1) w) (idx + 1)))
                       (enumerate 0 forecasted_fcff));
              ev_sens = np_add A pv_fcff_sens pv_tv_sens;
              eq_val_sens = np_add A (np_sub A ev_sens total_debt) cash
          in Inr (np_div A eq_val_sens shares_outstanding))
      else Inr NaN)"

text \<open>The two nested loops, rows indexed by the WACC axis and columns by the growth axis.\<close>

definition sensitivity_matrix ::
  "np_arith \<Rightarrow> float64 list \<Rightarrow> float64 \<Rightarrow> float64 \<Rightarrow> float64 \<Rightarrow> float64 \<Rightarrow> float64
     \<Rightarrow> py_error + float64 list list" where
  "sensitivity_matrix A forecasted_fcff total_debt cash shares_outstanding wacc perpetual_growth =
     collect (map (\<lambda>w.
       collect (map (\<lambda>g. sensitivity_cell A forecasted_fcff total_debt cash shares_outstanding w g)
                    (growth_range A perpetual_growth wacc)))
       (wacc_range A wacc))"

section \<open>Properties\<close>

subsection \<open>Auxiliary facts\<close>

text \<open>The unfolding of the rounding and of the grid, for the evaluation of closed terms.\<close>

lemmas round_eval = rnd_def round_double_def norm_up.simps norm_down.simps
  round_half_even_def inf_of_def

lemmas grid_eval = wacc_range_def growth_range_def linspace_def ieee_arith_def py_min_def
  f_sub_def Let_def

lemma rnd_zero: "rnd 0 = Fin 0"
  by (simp add: rnd_def round_double_def)

lemma rnd_one: "rnd 1 = Fin 1"
  by (simp add: round_eval)

lemma convex_between:
  fixes a b x y :: real
  assumes "0 \<le> a" "0 \<le> b" "a + b = 1"
  shows "min x y \<le> a * x + b * y" and "a * x + b * y \<le> max x y"
proof -
  have "a * min x y \<le> a * x" "b * min x y \<le> b * y"
    using assms by (auto intro: mult_left_mono)
  then have "(a + b) * min x y \<le> a * x + b * y" by (simp add: algebra_simps)
  then show "min x y \<le> a * x + b * y" using assms by simp
  have "a * x \<le> a * max x y" "b * y \<le> b * max x y"
    using assms by (auto intro: mult_left_mono)
  then have "a * x + b * y \<le> (a + b) * max x y" by (simp add: algebra_simps)
  then show "a * x + b * y \<le> max x y" using assms by simp
qed

lemma calculate_wacc_exact_between:
  assumes "0 \<le> market_cap" "0 \<le> total_debt" "0 < market_cap + total_debt"
  shows "\<exists>w. calculate_wacc cost_of_equity cost_of_debt market_cap total_debt = Inr w
           \<and> min cost_of_equity cost_of_debt \<le> w \<and> w \<le> max cost_of_equity cost_of_debt"
proof -
  let ?v = "market_cap + total_debt"
  let ?a = "market_cap / ?v" and ?b = "total_debt / ?v"
  have nz: "?v \<noteq> 0" using assms by simp
  have a: "0 \<le> ?a" and b: "0 \<le> ?b" using assms by simp_all
  have ab: "?a + ?b = 1" using nz by (simp add: add_divide_distrib [symmetric])
  have eq: "calculate_wacc cost_of_equity cost_of_debt market_cap total_debt
              = Inr (?a * cost_of_equity + ?b * cost_of_debt)"
    using nz by (simp add: calculate_wacc_def py_div_def Let_def)
  from convex_between [OF a b ab, of cost_of_equity cost_of_debt]
  have lo: "min cost_of_equity cost_of_debt \<le> ?a * cost_of_equity + ?b * cost_of_debt"
    and hi: "?a * cost_of_equity + ?b * cost_of_debt \<le> max cost_of_equity cost_of_debt"
    by blast+
  from eq lo hi show ?thesis by blast
qed

lemma calculate_wacc_float64_no_debt:
  assumes "0 < market_cap" and "is_float64 (Fin market_cap)" and "is_float64 (Fin cost_of_equity)"
  shows "calculate_wacc_float64 (Fin cost_of_equity) (Fin cost_of_debt) (Fin market_cap) (Fin 0)
           = Inr (Fin cost_of_equity)"
proof -
  from assms(2) have mc: "rnd market_cap = Fin market_cap" by simp
  from assms(3) have coe: "rnd cost_of_equity = Fin cost_of_equity" by simp
  from assms(1) have nz: "market_cap \<noteq> 0" by simp
  show ?thesis
    using nz by (simp add: calculate_wacc_float64_def py_div64_def mc coe rnd_zero rnd_one)
qed

lemma power_abs_between:
  fixes x :: real
  assumes "i \<le> n"
  shows "\<bar>x\<bar> ^ i \<le> max 1 (\<bar>x\<bar> ^ n)" and "min 1 (\<bar>x\<bar> ^ n) \<le> \<bar>x\<bar> ^ i"
proof -
  show "\<bar>x\<bar> ^ i \<le> max 1 (\<bar>x\<bar> ^ n)"
  proof (cases "1 \<le> \<bar>x\<bar>")
    case True
    then have "\<bar>x\<bar> ^ i \<le> \<bar>x\<bar> ^ n" using assms by (rule power_increasing [rotated])
    then show ?thesis by simp
  next
    case False
    then have "\<bar>x\<bar> ^ i \<le> 1" by (simp add: power_le_one)
    then show ?thesis by simp
  qed
  show "min 1 (\<bar>x\<bar> ^ n) \<le> \<bar>x\<bar> ^ i"
  proof (cases "1 \<le> \<bar>x\<bar>")
    case True
    then have "1 \<le> \<bar>x\<bar> ^ i" by simp
    then show ?thesis by simp
  next
    case False
    then have "\<bar>x\<bar> ^ n \<le> \<bar>x\<bar> ^ i" using assms by (simp add: power_decreasing)
    then show ?thesis by simp
  qed
qed

lemma py_pow_in_range:
  assumes "i \<le> n" and "\<not> pow_overflow (x ^ n)" and "x = 0 \<or> \<not> pow_to_zero (x ^ n)"
  shows "py_pow x i = Inr (x ^ i)"
proof -
  have one_lt: "(1::real) < 2 ^ 1024 - 2 ^ 970" by simp
  have lt_one: "(1 / 2 ^ 1075 :: real) < 1" by simp
  from assms(2) have "\<bar>x\<bar> ^ n < 2 ^ 1024 - 2 ^ 970"
    by (simp add: pow_overflow_def power_abs)
  with one_lt have "max 1 (\<bar>x\<bar> ^ n) < 2 ^ 1024 - 2 ^ 970" by simp
  with power_abs_between(1) [OF assms(1), of x] have "\<bar>x\<bar> ^ i < 2 ^ 1024 - 2 ^ 970"
    by linarith
  then have no: "\<not> pow_overflow (x ^ i)" by (simp add: pow_overflow_def power_abs)
  show ?thesis
  proof (cases "pow_to_zero (x ^ i)")
    case False
    with no show ?thesis by (simp add: py_pow_def)
  next
    case True
    have z: "x ^ i = 0"
    proof (rule ccontr)
      assume nz: "x ^ i \<noteq> 0"
      have "i \<noteq> 0"
      proof
        assume "i = 0"
        with True show False by (simp add: pow_to_zero_def)
      qed
      with nz have "x \<noteq> 0" by auto
      with assms(3) have "1 / 2 ^ 1075 < \<bar>x\<bar> ^ n" by (simp add: pow_to_zero_def power_abs)
      with lt_one have "1 / 2 ^ 1075 < min 1 (\<bar>x\<bar> ^ n)" by simp
      with power_abs_between(2) [OF assms(1), of x] have "1 / 2 ^ 1075 < \<bar>x\<bar> ^ i" by linarith
      with True show False by (simp add: pow_to_zero_def power_abs)
    qed
    have "py_pow x i = Inr 0"
      unfolding py_pow_def Let_def by (simp only: no True if_False if_True)
    then show ?thesis by (simp only: z)
  qed
qed

lemma forecast_loop_eq:
  assumes "\<And>year. year \<in> set years \<Longrightarrow> py_pow (1 + g) (nat year) = Inr ((1 + g) ^ nat year)"
  shows "forecast_loop b g years acc = Inr (acc @ map (\<lambda>year. b * ((1 + g) ^ nat year)) years)"
  using assms by (induction years arbitrary: acc) simp_all

lemma forecast_fcff_eq:
  assumes "\<not> pow_overflow ((1 + g) ^ nat forecast_years)"
    and "1 + g = 0 \<or> \<not> pow_to_zero ((1 + g) ^ nat forecast_years)"
    and "g = (case growth of None \<Rightarrow> 5 / 100 | Some r \<Rightarrow> r)"
  shows "forecast_fcff base_fcff forecast_years growth =
     Inr (map (\<lambda>year. base_fcff * ((1 + g) ^ nat year)) [1..forecast_years])"
proof -
  have "forecast_loop base_fcff g [1..forecast_years] [] =
          Inr ([] @ map (\<lambda>year. base_fcff * ((1 + g) ^ nat year)) [1..forecast_years])"
  proof (rule forecast_loop_eq)
    fix year assume "year \<in> set [1..forecast_years]"
    then have "nat year \<le> nat forecast_years" by auto
    then show "py_pow (1 + g) (nat year) = Inr ((1 + g) ^ nat year)"
      using assms(1,2) by (rule py_pow_in_range)
  qed
  then show ?thesis
    using assms(3) by (simp add: forecast_fcff_def Let_def)
qed

lemma discount_loop_eq:
  assumes "1 + wacc \<noteq> 0"
    and "\<And>k. year \<le> k \<Longrightarrow> k < year + length xs \<Longrightarrow> py_pow (1 + wacc) k = Inr ((1 + wacc) ^ k)"
  shows "discount_loop wacc year xs acc tot =
           Inr (acc @ map (\<lambda>(i, x). x / (1 + wacc) ^ i) (enumerate year xs),
                tot + sum_list (map (\<lambda>(i, x). x / (1 + wacc) ^ i) (enumerate year xs)))"
  using assms
proof (induction xs arbitrary: year acc tot)
  case Nil
  then show ?case by simp
next
  case (Cons x xs)
  have here: "py_pow (1 + wacc) year = Inr ((1 + wacc) ^ year)"
    by (rule Cons.prems(2)) simp_all
  have rest: "discount_loop wacc (Suc year) xs (acc @ [x / (1 + wacc) ^ year])
                (tot + x / (1 + wacc) ^ year) =
           Inr ((acc @ [x / (1 + wacc) ^ year]) @
                  map (\<lambda>(i, x). x / (1 + wacc) ^ i) (enumerate (Suc year) xs),
                (tot + x / (1 + wacc) ^ year) +
                  sum_list (map (\<lambda>(i, x). x / (1 + wacc) ^ i) (enumerate (Suc year) xs)))"
    by (rule Cons.IH [OF Cons.prems(1)]) (rule Cons.prems(2), simp_all)
  from Cons.prems(1) have "(1 + wacc) ^ year \<noteq> 0" by simp
  with here rest show ?case by (simp add: py_div_def add.assoc)
qed

lemma enumerate_from_one:
  "map (\<lambda>(i, x). f x i) (enumerate 1 xs) = map (\<lambda>i. f (xs ! (i - 1)) i) [1..<Suc (length xs)]"
  by (rule nth_equalityI) (simp_all add: nth_enumerate_eq del: upt_Suc)

lemma sum_list_from_one:
  "sum_list (map f [Suc 0..<Suc n]) = (\<Sum>i = Suc 0..n. f i)"
  by (simp add: interv_sum_list_conv_sum_set_nat atLeastLessThanSuc_atLeastAtMost del: upt_Suc)

lemma calculate_enterprise_value_eq:
  assumes "1 + wacc \<noteq> 0"
    and "\<not> pow_overflow ((1 + wacc) ^ length forecasted_fcff)"
    and "\<not> pow_to_zero ((1 + wacc) ^ length forecasted_fcff)"
  shows "calculate_enterprise_value forecasted_fcff terminal_value wacc =
     Inr ((\<Sum>i = 1..length forecasted_fcff. forecasted_fcff ! (i - 1) / (1 + wacc) ^ i)
            + terminal_value / (1 + wacc) ^ length forecasted_fcff,
          map (\<lambda>i. forecasted_fcff ! (i - 1) / (1 + wacc) ^ i) [1..<Suc (length forecasted_fcff)],
          terminal_value / (1 + wacc) ^ length forecasted_fcff)"
proof -
  have pw: "py_pow (1 + wacc) k = Inr ((1 + wacc) ^ k)" if "k \<le> length forecasted_fcff" for k
    using that assms(2) by (rule py_pow_in_range) (simp add: assms(3))
  have "map (\<lambda>(i, x). x / (1 + wacc) ^ i) (enumerate 1 forecasted_fcff) =
          map (\<lambda>i. forecasted_fcff ! (i - 1) / (1 + wacc) ^ i) [1..<Suc (length forecasted_fcff)]"
    by (rule enumerate_from_one [of "\<lambda>x i. x / (1 + wacc) ^ i"])
  moreover have "discount_loop wacc 1 forecasted_fcff [] 0 =
          Inr ([] @ map (\<lambda>(i, x). x / (1 + wacc) ^ i) (enumerate 1 forecasted_fcff),
               0 + sum_list (map (\<lambda>(i, x). x / (1 + wacc) ^ i) (enumerate 1 forecasted_fcff)))"
    by (rule discount_loop_eq [OF assms(1)]) (rule pw, simp)
  ultimately have "discount_loop wacc 1 forecasted_fcff [] 0 =
          Inr (map (\<lambda>i. forecasted_fcff ! (i - 1) / (1 + wacc) ^ i) [1..<Suc (length forecasted_fcff)],
               (\<Sum>i = 1..length forecasted_fcff. forecasted_fcff ! (i - 1) / (1 + wacc) ^ i))"
    by (simp add: sum_list_from_one del: upt_Suc)
  moreover have "py_pow (1 + wacc) (length forecasted_fcff) =
          Inr ((1 + wacc) ^ length forecasted_fcff)"
    by (rule pw) simp
  ultimately show ?thesis
    using assms(1) by (simp add: calculate_enterprise_value_def py_div_def del: upt_Suc)
qed

lemma collect_Inr_nth:
  assumes "collect rs = Inr xs"
  shows "length xs = length rs \<and> (\<forall>i<length rs. rs ! i = Inr (xs ! i))"
  using assms
proof (induction rs arbitrary: xs)
  case Nil
  then show ?case by simp
next
  case (Cons r rs)
  from Cons.prems obtain x ys where r: "r = Inr x" and ys: "collect rs = Inr ys"
    and xs: "xs = x # ys"
    by (cases r; cases "collect rs") auto
  from Cons.IH [OF ys] have len: "length ys = length rs"
    and nth: "\<forall>i<length rs. rs ! i = Inr (ys ! i)" by simp_all
  show ?case
  proof (intro conjI allI impI)
    show "length xs = length (r # rs)" using len xs by simp
    fix i assume "i < length (r # rs)"
    then show "(r # rs) ! i = Inr (xs ! i)"
      using r xs nth by (cases i) simp_all
  qed
qed

lemma collect_total:
  assumes "\<And>r. r \<in> set rs \<Longrightarrow> \<exists>x. r = Inr x"
  shows "\<exists>xs. collect rs = Inr xs"
  using assms
proof (induction rs)
  case Nil
  then show ?case by simp
next
  case (Cons r rs)
  from Cons.prems obtain x where "r = Inr x" by auto
  moreover from Cons obtain ys where "collect rs = Inr ys" by auto
  ultimately show ?case by simp
qed

lemma length_linspace: "length (linspace A start stop num) = num"
  by (simp add: linspace_def Let_def)

lemma length_wacc_range: "length (wacc_range A wacc) = 7"
  by (simp add: wacc_range_def length_linspace)

lemma length_growth_range: "length (growth_range A perpetual_growth wacc) = 7"
  by (simp add: growth_range_def length_linspace)

lemma f_le_not_less: "f_le w g \<Longrightarrow> \<not> f_less g w"
  by (cases w; cases g) (auto simp: f_le_def)

lemma enumerate_from_zero:
  "map (\<lambda>(idx, x). f x idx) (enumerate 0 xs) = map (\<lambda>k. f (xs ! k) k) [0..<length xs]"
  by (rule nth_equalityI) (simp_all add: nth_enumerate_eq)

lemma last_item_nonempty: "xs \<noteq> [] \<Longrightarrow> last_item xs = Inr (last xs)"
  by (cases xs) (simp_all add: last_item_def)

lemma last_item_Inr: "last_item xs = Inr x \<Longrightarrow> xs \<noteq> [] \<and> x = last xs"
  by (cases xs) (simp_all add: last_item_def)

lemma sensitivity_cell_invalid:
  "\<not> f_less g w \<Longrightarrow>
     sensitivity_cell A forecasted_fcff total_debt cash shares_outstanding w g = Inr NaN"
  by (simp add: sensitivity_cell_def)

lemma sensitivity_cell_total:
  "forecasted_fcff \<noteq> [] \<Longrightarrow>
     \<exists>v. sensitivity_cell A forecasted_fcff total_debt cash shares_outstanding w g = Inr v"
  by (simp add: sensitivity_cell_def last_item_nonempty Let_def)

lemma sensitivity_cell_valid:
  assumes "f_less g w"
    and "sensitivity_cell A forecasted_fcff total_debt cash shares_outstanding w g = Inr v"
  shows "v = np_div A
           (np_add A
             (np_sub A
               (np_add A
                 (foldl (np_add A) (Fin 0)
                    (map (\<lambda>k. np_div A (forecasted_fcff ! k)
                                 (np_pow A (np_add A (Fin 1) w) (k + 1)))
                         [0..<length forecasted_fcff]))
                 (np_div A
                    (np_div A (np_mul A (last forecasted_fcff) (np_add A (Fin 1) g))
                              (np_sub A w g))
                    (np_pow A (np_add A (Fin 1) w) (length forecasted_fcff))))
               total_debt)
             cash)
           shares_outstanding"
proof -
  from assms obtain fcff_final where fin: "last_item forecasted_fcff = Inr fcff_final"
    by (cases "last_item forecasted_fcff") (simp_all add: sensitivity_cell_def)
  then have "fcff_final = last forecasted_fcff" by (simp add: last_item_Inr)
  moreover have "map (\<lambda>(idx, fcff). np_div A fcff (np_pow A (np_add A (Fin 1) w) (Suc idx)))
                   (enumerate 0 forecasted_fcff) =
                 map (\<lambda>k. np_div A (forecasted_fcff ! k) (np_pow A (np_add A (Fin 1) w) (Suc k)))
                   [0..<length forecasted_fcff]"
    by (rule enumerate_from_zero
        [of "\<lambda>x k. np_div A x (np_pow A (np_add A (Fin 1) w) (Suc k))"])
  ultimately show ?thesis
    using assms fin by (simp add: sensitivity_cell_def Let_def)
qed

subsection \<open>The claims\<close>

text \<open>
  Claim C1, as amended. Whenever \<open>wacc \<le> perpetual_growth\<close> the terminal-value operation
  prints the line ``Error: WACC must be greater than perpetual growth rate'' and returns
  the number 0; no error is raised. When \<open>wacc > perpetual_growth\<close> it prints nothing and
  returns \<open>fcff_final * (1 + perpetual_growth) / (wacc - perpetual_growth)\<close>.
\<close>

theorem calculate_terminal_value_guard:
  "calculate_terminal_value fcff_final perpetual_growth wacc =
     (if wacc \<le> perpetual_growth
      then ([''Error: WACC must be greater than perpetual growth rate''], Inr 0)
      else ([], Inr (fcff_final * (1 + perpetual_growth) / (wacc - perpetual_growth))))"
  by (simp add: calculate_terminal_value_def py_div_def)

text \<open>
  Claim C1 as stated fails: at \<open>wacc = 0.025\<close> and \<open>perpetual_growth = 0.03\<close>, where
  \<open>wacc \<le> perpetual_growth\<close>, the operation returns the numeric value 0 and not an error.
\<close>

theorem calculate_terminal_value_returns_zero:
  "(25 / 1000 :: real) \<le> 3 / 100
   \<and> snd (calculate_terminal_value 100 (3 / 100) (25 / 1000)) = Inr 0
   \<and> \<not> isl (snd (calculate_terminal_value 100 (3 / 100) (25 / 1000)))"
  by (simp add: calculate_terminal_value_def)

text \<open>
  Claim C2. The sensitivity grid has 7 rows and 7 columns. Every cell whose WACC is at
  most its growth rate holds the not-a-number, never the number 0. Every cell whose WACC
  exceeds its growth rate holds the per-share value of that pair: the terminal value
  recomputed from the last forecast cash flow, the series and the terminal value
  discounted at the cell's WACC, the debt subtracted and the cash added, and the result
  divided by the shares outstanding. This holds of every grid the loop produces, in
  whatever arithmetic, and the loop produces a grid whenever the series is not empty.
\<close>

theorem sensitivity_matrix_spec:
  "(forecasted_fcff \<noteq> [] \<longrightarrow>
      (\<exists>m. sensitivity_matrix A forecasted_fcff total_debt cash shares_outstanding wacc
              perpetual_growth = Inr m))
   \<and> (\<forall>m. sensitivity_matrix A forecasted_fcff total_debt cash shares_outstanding wacc
              perpetual_growth = Inr m \<longrightarrow>
        length m = 7 \<and> (\<forall>i<7. length (m ! i) = 7 \<and> (\<forall>j<7.
          (let w = wacc_range A wacc ! i; g = growth_range A perpetual_growth wacc ! j in
             (f_le w g \<longrightarrow> m ! i ! j = NaN \<and> m ! i ! j \<noteq> Fin 0)
           \<and> (f_less g w \<longrightarrow>
                m ! i ! j =
                  (let n = length forecasted_fcff;
                       tv = np_div A (np_mul A (last forecasted_fcff) (np_add A (Fin 1) g))
                                     (np_sub A w g);
                       pv_tv = np_div A tv (np_pow A (np_add A (Fin 1) w) n);
                       pv_fcff = foldl (np_add A) (Fin 0)
                                   (map (\<lambda>k. np_div A (forecasted_fcff ! k)
                                                (np_pow A (np_add A (Fin 1) w) (k + 1)))
                                        [0..<n]);
                       ev = np_add A pv_fcff pv_tv;
                       equity = np_add A (np_sub A ev total_debt) cash
                   in np_div A equity shares_outstanding))))))"
proof (intro conjI impI allI)
  let ?cell = "sensitivity_cell A forecasted_fcff total_debt cash shares_outstanding"
  let ?ws = "wacc_range A wacc" and ?gs = "growth_range A perpetual_growth wacc"
  {
    assume ne: "forecasted_fcff \<noteq> []"
    have "\<exists>row. collect (map (?cell w) ?gs) = Inr row" for w
      by (rule collect_total) (auto simp: sensitivity_cell_total [OF ne])
    then show "\<exists>m. sensitivity_matrix A forecasted_fcff total_debt cash shares_outstanding wacc
              perpetual_growth = Inr m"
      unfolding sensitivity_matrix_def by (intro collect_total) auto
  }
  fix m
  assume "sensitivity_matrix A forecasted_fcff total_debt cash shares_outstanding wacc
            perpetual_growth = Inr m"
  then have m: "collect (map (\<lambda>w. collect (map (?cell w) ?gs)) ?ws) = Inr m"
    by (simp add: sensitivity_matrix_def)
  from collect_Inr_nth [OF m] have len: "length m = 7"
    and rows: "\<forall>i<7. collect (map (?cell (?ws ! i)) ?gs) = Inr (m ! i)"
    by (simp_all add: length_wacc_range)
  show "length m = 7" by (rule len)
  fix i :: nat
  assume i: "i < 7"
  from rows i have row: "collect (map (?cell (?ws ! i)) ?gs) = Inr (m ! i)" by simp
  from collect_Inr_nth [OF row] have rowlen: "length (m ! i) = 7"
    and cells: "\<forall>j<7. ?cell (?ws ! i) (?gs ! j) = Inr (m ! i ! j)"
    by (simp_all add: length_growth_range)
  show "length (m ! i) = 7" by (rule rowlen)
  fix j :: nat
  assume j: "j < 7"
  from cells j have cell: "?cell (?ws ! i) (?gs ! j) = Inr (m ! i ! j)" by simp
  have invalid: "m ! i ! j = NaN \<and> m ! i ! j \<noteq> Fin 0" if "f_le (?ws ! i) (?gs ! j)"
  proof -
    from that have "\<not> f_less (?gs ! j) (?ws ! i)" by (rule f_le_not_less)
    then have "?cell (?ws ! i) (?gs ! j) = Inr NaN" by (rule sensitivity_cell_invalid)
    with cell show ?thesis by simp
  qed
  have valid: "m ! i ! j =
      np_div A
        (np_add A
          (np_sub A
            (np_add A
              (foldl (np_add A) (Fin 0)
                 (map (\<lambda>k. np_div A (forecasted_fcff ! k)
                              (np_pow A (np_add A (Fin 1) (?ws ! i)) (k + 1)))
                      [0..<length forecasted_fcff]))
              (np_div A
                 (np_div A (np_mul A (last forecasted_fcff) (np_add A (Fin 1) (?gs ! j)))
                           (np_sub A (?ws ! i) (?gs ! j)))
                 (np_pow A (np_add A (Fin 1) (?ws ! i)) (length forecasted_fcff))))
            total_debt)
          cash)
        shares_outstanding" if "f_less (?gs ! j) (?ws ! i)"
    using that cell by (rule sensitivity_cell_valid)
  from invalid valid
  show "let w = ?ws ! i; g = ?gs ! j in
             (f_le w g \<longrightarrow> m ! i ! j = NaN \<and> m ! i ! j \<noteq> Fin 0)
           \<and> (f_less g w \<longrightarrow>
                m ! i ! j =
                  (let n = length forecasted_fcff;
                       tv = np_div A (np_mul A (last forecasted_fcff) (np_add A (Fin 1) g))
                                     (np_sub A w g);
                       pv_tv = np_div A tv (np_pow A (np_add A (Fin 1) w) n);
                       pv_fcff = foldl (np_add A) (Fin 0)
                                   (map (\<lambda>k. np_div A (forecasted_fcff ! k)
                                                (np_pow A (np_add A (Fin 1) w) (k + 1)))
                                        [0..<n]);
                       ev = np_add A pv_fcff pv_tv;
                       equity = np_add A (np_sub A ev total_debt) cash
                   in np_div A equity shares_outstanding))"
    unfolding Let_def by blast
qed

theorem sensitivity_matrix_spec_witness:
  "[Fin 112, Fin 120] \<noteq> []
   \<and> f_le (wacc_range ieee_arith (Fin (1 / 8)) ! 0)
           (growth_range ieee_arith (Fin (3 / 8)) (Fin (1 / 8)) ! 0)
   \<and> f_less (growth_range ieee_arith (Fin (3 / 8)) (Fin (1 / 8)) ! 6)
            (wacc_range ieee_arith (Fin (1 / 8)) ! 6)
   \<and> (\<exists>m. sensitivity_matrix ieee_arith [Fin 112, Fin 120] (Fin 50) (Fin 20) (Fin 10)
              (Fin (1 / 8)) (Fin (3 / 8)) = Inr m
          \<and> length m = 7 \<and> m ! 0 ! 0 = NaN
          \<and> m ! 6 ! 6 = Fin (2506886511329281 / 8796093022208))"
proof -
  let ?ws = "wacc_range ieee_arith (Fin (1 / 8))"
  let ?gs = "growth_range ieee_arith (Fin (3 / 8)) (Fin (1 / 8))"
  have w0: "?ws ! 0 = Fin (3602879701896397 / 36028797018963968)"
    and w6: "?ws ! 6 = Fin (5404319552844595 / 36028797018963968)"
    by (simp_all add: grid_eval round_eval)
  have g0: "?gs ! 0 = Fin (3 / 16)"
    and g6: "?gs ! 6 = Fin (8106479329266893 / 72057594037927936)"
    by (simp_all add: grid_eval round_eval)
  have h1: "[Fin 112, Fin 120] \<noteq> []" by simp
  have h2: "f_le (?ws ! 0) (?gs ! 0)" unfolding w0 g0 by (simp add: f_le_def)
  have h3: "f_less (?gs ! 6) (?ws ! 6)" unfolding w6 g6 by simp
  note spec = sensitivity_matrix_spec [of "[Fin 112, Fin 120]" ieee_arith "Fin 50" "Fin 20"
      "Fin 10" "Fin (1 / 8)" "Fin (3 / 8)"]
  from spec h1 obtain m
    where m: "sensitivity_matrix ieee_arith [Fin 112, Fin 120] (Fin 50) (Fin 20) (Fin 10)
                (Fin (1 / 8)) (Fin (3 / 8)) = Inr m"
    by blast
  with spec have len: "length m = 7"
    and cells: "\<forall>i<7. length (m ! i) = 7 \<and> (\<forall>j<7.
          (let w = ?ws ! i; g = ?gs ! j in
             (f_le w g \<longrightarrow> m ! i ! j = NaN \<and> m ! i ! j \<noteq> Fin 0)
           \<and> (f_less g w \<longrightarrow>
                m ! i ! j =
                  (let n = length [Fin 112, Fin 120];
                       tv = np_div ieee_arith
                              (np_mul ieee_arith (last [Fin 112, Fin 120])
                                 (np_add ieee_arith (Fin 1) g))
                              (np_sub ieee_arith w g);
                       pv_tv = np_div ieee_arith tv (np_pow ieee_arith (np_add ieee_arith (Fin 1) w) n);
                       pv_fcff = foldl (np_add ieee_arith) (Fin 0)
                                   (map (\<lambda>k. np_div ieee_arith ([Fin 112, Fin 120] ! k)
                                                (np_pow ieee_arith (np_add ieee_arith (Fin 1) w) (k + 1)))
                                        [0..<n]);
                       ev = np_add ieee_arith pv_fcff pv_tv;
                       equity = np_add ieee_arith (np_sub ieee_arith ev (Fin 50)) (Fin 20)
                   in np_div ieee_arith equity (Fin 10)))))"
    by blast+
  from cells [rule_format, of 0, THEN conjunct2, rule_format, of 0] h2
  have c00: "m ! 0 ! 0 = NaN" by (simp add: Let_def)
  from cells [rule_format, of 6, THEN conjunct2, rule_format, of 6] h3
  have "m ! 6 ! 6 =
          (let w = ?ws ! 6; g = ?gs ! 6; n = length [Fin 112, Fin 120];
               tv = np_div ieee_arith
                      (np_mul ieee_arith (last [Fin 112, Fin 120]) (np_add ieee_arith (Fin 1) g))
                      (np_sub ieee_arith w g);
               pv_tv = np_div ieee_arith tv (np_pow ieee_arith (np_add ieee_arith (Fin 1) w) n);
               pv_fcff = foldl (np_add ieee_arith) (Fin 0)
                           (map (\<lambda>k. np_div ieee_arith ([Fin 112, Fin 120] ! k)
                                        (np_pow ieee_arith (np_add ieee_arith (Fin 1) w) (k + 1)))
                                [0..<n]);
               ev = np_add ieee_arith pv_fcff pv_tv;
               equity = np_add ieee_arith (np_sub ieee_arith ev (Fin 50)) (Fin 20)
           in np_div ieee_arith equity (Fin 10))"
    by (simp add: Let_def)
  also have "\<dots> = Fin (2506886511329281 / 8796093022208)"
    unfolding w6 g6
    by (simp add: ieee_arith_def f_sub_def Let_def round_eval upt_rec power2_eq_square)
  finally have c66: "m ! 6 ! 6 = Fin (2506886511329281 / 8796093022208)" .
  from h1 h2 h3 m len c00 c66 show ?thesis by blast
qed

text \<open>
  Claim C3, as amended. For a non-empty forecast series of length \<open>n\<close>, any terminal value
  and any \<open>wacc > -1\<close> whose discount factor \<open>(1 + wacc) ^ n\<close> neither overflows the doubles
  nor rounds to zero, the enterprise-value operation returns the list of the year-\<open>i\<close> cash
  flows divided by \<open>(1 + wacc) ^ i\<close> for \<open>i = 1..n\<close>, the terminal value divided by
  \<open>(1 + wacc) ^ n\<close> (the horizon of the last forecast year), and their total as the
  enterprise value; for a one-element series \<open>[F]\<close> that is
  \<open>F / (1 + wacc) + TV / (1 + wacc)\<close>.
\<close>

theorem calculate_enterprise_value_spec:
  assumes "forecasted_fcff \<noteq> []" and "- 1 < wacc"
    and "\<not> pow_overflow ((1 + wacc) ^ length forecasted_fcff)"
    and "\<not> pow_to_zero ((1 + wacc) ^ length forecasted_fcff)"
  shows "calculate_enterprise_value forecasted_fcff terminal_value wacc =
     Inr ((\<Sum>i = 1..length forecasted_fcff. forecasted_fcff ! (i - 1) / (1 + wacc) ^ i)
            + terminal_value / (1 + wacc) ^ length forecasted_fcff,
          map (\<lambda>i. forecasted_fcff ! (i - 1) / (1 + wacc) ^ i) [1..<Suc (length forecasted_fcff)],
          terminal_value / (1 + wacc) ^ length forecasted_fcff)
   \<and> calculate_enterprise_value [F] terminal_value wacc =
     Inr (F / (1 + wacc) + terminal_value / (1 + wacc), [F / (1 + wacc)], terminal_value / (1 + wacc))"
proof -
  from assms(2) have nz: "1 + wacc \<noteq> 0" by simp
  from assms(1) have "1 \<le> length forecasted_fcff" by (cases forecasted_fcff) simp_all
  then have "py_pow (1 + wacc) 1 = Inr ((1 + wacc) ^ 1)"
    using assms(3) by (rule py_pow_in_range) (simp add: assms(4))
  then have "calculate_enterprise_value [F] terminal_value wacc =
     Inr (F / (1 + wacc) + terminal_value / (1 + wacc), [F / (1 + wacc)], terminal_value / (1 + wacc))"
    using nz by (simp add: calculate_enterprise_value_def py_div_def)
  with calculate_enterprise_value_eq [OF nz assms(3,4)] show ?thesis by simp
qed

theorem calculate_enterprise_value_spec_witness:
  "[110, 121] \<noteq> ([] :: real list) \<and> (- 1 :: real) < 1 / 10
   \<and> \<not> pow_overflow ((1 + 1 / 10) ^ length [110 :: real, 121])
   \<and> \<not> pow_to_zero ((1 + 1 / 10) ^ length [110 :: real, 121])
   \<and> calculate_enterprise_value [110, 121] 1331 (1 / 10) = Inr (1300, [100, 100], 1100)
   \<and> calculate_enterprise_value [110] 1331 (1 / 10) = Inr (1310, [100], 1210)"
proof -
  have h1: "[110, 121] \<noteq> ([] :: real list)" and h2: "(- 1 :: real) < 1 / 10" by simp_all
  have h3: "\<not> pow_overflow ((1 + 1 / 10) ^ length [110 :: real, 121])"
    and h4: "\<not> pow_to_zero ((1 + 1 / 10) ^ length [110 :: real, 121])"
    by (simp_all add: pow_overflow_def pow_to_zero_def power2_eq_square)
  from calculate_enterprise_value_spec [OF h1 h2 h3 h4, of 1331 110]
  have "calculate_enterprise_value [110, 121] 1331 (1 / 10) = Inr (1300, [100, 100], 1100)
      \<and> calculate_enterprise_value [110] 1331 (1 / 10) = Inr (1310, [100], 1210)"
    by (simp add: numeral_2_eq_2 upt_rec power2_eq_square)
  with h1 h2 h3 h4 show ?thesis by blast
qed

text \<open>
  Claim C3 as stated fails: with \<open>wacc = 2 ^ 600\<close> and a series of two years the second
  discount factor overflows and the operation raises \<^verbatim>\<open>OverflowError\<close>; with
  \<open>wacc = -1 + 2 ^ -52\<close> and 21 years the last discount factor rounds to zero and the
  operation raises \<^verbatim>\<open>ZeroDivisionError\<close>.
\<close>

theorem calculate_enterprise_value_overflow:
  "[1, 1] \<noteq> ([] :: real list) \<and> (- 1 :: real) < 2 ^ 600
   \<and> calculate_enterprise_value [1, 1] 0 (2 ^ 600) = Inl OverflowError
   \<and> replicate 21 1 \<noteq> ([] :: real list) \<and> (- 1 :: real) < - 1 + 1 / 2 ^ 52
   \<and> calculate_enterprise_value (replicate 21 1) 0 (- 1 + 1 / 2 ^ 52) = Inl ZeroDivisionError"
  by (simp add: calculate_enterprise_value_def py_pow_def pow_overflow_def pow_to_zero_def
      py_div_def eval_nat_numeral)

text \<open>
  Claim C4. The effective tax rate is exactly 0.21 when the tax expense is absent or
  \<open>ebit \<le> 0\<close>; otherwise it is \<open>tax_expense / ebit\<close> clamped to \<open>[0, 0.5]\<close>. For a
  nonzero \<open>ebit\<close> and a present tax expense the result always lies in \<open>[0, 0.5]\<close>.
\<close>

theorem calculate_tax_rate_spec:
  "calculate_tax_rate ebit None = Inr (21 / 100)
   \<and> (ebit \<le> 0 \<longrightarrow> calculate_tax_rate ebit tax_expense = Inr (21 / 100))
   \<and> (0 < ebit \<longrightarrow> calculate_tax_rate ebit (Some te) = Inr (max 0 (min (te / ebit) (5 / 10))))
   \<and> (ebit \<noteq> 0 \<longrightarrow> (\<exists>r. calculate_tax_rate ebit (Some te) = Inr r \<and> 0 \<le> r \<and> r \<le> 5 / 10))"
proof (intro conjI impI)
  show "calculate_tax_rate ebit None = Inr (21 / 100)"
    by (simp add: calculate_tax_rate_def)
  show "calculate_tax_rate ebit tax_expense = Inr (21 / 100)" if "ebit \<le> 0"
    using that by (simp add: calculate_tax_rate_def split: option.splits)
  show pos: "calculate_tax_rate ebit (Some te) = Inr (max 0 (min (te / ebit) (5 / 10)))"
    if "0 < ebit"
    using that by (simp add: calculate_tax_rate_def py_div_def)
  show "\<exists>r. calculate_tax_rate ebit (Some te) = Inr r \<and> 0 \<le> r \<and> r \<le> 5 / 10"
    if "ebit \<noteq> 0"
  proof (cases "ebit \<le> 0")
    case True
    then have "calculate_tax_rate ebit (Some te) = Inr (21 / 100)"
      by (simp add: calculate_tax_rate_def)
    moreover have "(0::real) \<le> 21 / 100" and "(21 / 100 :: real) \<le> 5 / 10" by simp_all
    ultimately show ?thesis by blast
  next
    case False
    then have "calculate_tax_rate ebit (Some te) = Inr (max 0 (min (te / ebit) (5 / 10)))"
      by (simp add: calculate_tax_rate_def py_div_def)
    moreover have "0 \<le> max 0 (min (te / ebit) (5 / 10))" by simp
    moreover have "max 0 (min (te / ebit) (5 / 10)) \<le> (5 / 10 :: real)"
      unfolding max_def min_def by simp
    ultimately show ?thesis by blast
  qed
qed

theorem calculate_tax_rate_spec_witness:
  "(0::real) < 100 \<and> calculate_tax_rate 100 (Some 30) = Inr (3 / 10)
   \<and> (-5::real) \<le> 0 \<and> calculate_tax_rate (-5) (Some 30) = Inr (21 / 100)
   \<and> calculate_tax_rate 100 (Some 80) = Inr (5 / 10)"
  using calculate_tax_rate_spec [of 100 "Some 30" 30] calculate_tax_rate_spec [of "-5" "Some 30" 30]
    calculate_tax_rate_spec [of 100 "Some 80" 80]
  by simp

text \<open>
  Claim C5. The after-tax cost of debt is 0 whenever \<open>total_debt = 0\<close>, whatever the
  interest expense; otherwise it is \<open>pretax * (1 - tax_rate)\<close>, where \<open>pretax\<close> is
  \<open>interest_expense / total_debt\<close> for a present, nonzero interest expense and 0.04
  otherwise.
\<close>

theorem calculate_cost_of_debt_spec:
  "(total_debt = 0 \<longrightarrow> calculate_cost_of_debt total_debt interest_expense tax_rate = Inr 0)
   \<and> (total_debt \<noteq> 0 \<longrightarrow>
        calculate_cost_of_debt total_debt interest_expense tax_rate =
          Inr ((case interest_expense of
                  None \<Rightarrow> 4 / 100
                | Some ie \<Rightarrow> if ie = 0 then 4 / 100 else ie / total_debt) * (1 - tax_rate)))"
  by (auto simp: calculate_cost_of_debt_def py_div_def split: option.splits)

theorem calculate_cost_of_debt_spec_witness:
  "calculate_cost_of_debt 0 (Some 7) (21 / 100) = Inr 0
   \<and> (200::real) \<noteq> 0 \<and> calculate_cost_of_debt 200 (Some 10) (1 / 5) = Inr (1 / 25)
   \<and> calculate_cost_of_debt 200 None (1 / 2) = Inr (1 / 50)"
  using calculate_cost_of_debt_spec [of 0 "Some 7" "21 / 100"]
    calculate_cost_of_debt_spec [of 200 "Some 10" "1 / 5"]
    calculate_cost_of_debt_spec [of 200 None "1 / 2"]
  by simp

text \<open>
  Claim C6. When \<open>market_cap + total_debt = 0\<close> the WACC operation returns the cost of
  equity, with no division (no \<open>ZeroDivisionError\<close>); otherwise it returns the
  market-value weighted average of the two costs.
\<close>

theorem calculate_wacc_spec:
  "calculate_wacc cost_of_equity cost_of_debt market_cap total_debt =
     Inr (if market_cap + total_debt = 0 then cost_of_equity
          else (market_cap / (market_cap + total_debt)) * cost_of_equity
             + (total_debt / (market_cap + total_debt)) * cost_of_debt)"
  by (simp add: calculate_wacc_def py_div_def Let_def)

text \<open>
  Claim C7, as amended. For \<open>forecast_years \<ge> 1\<close> and a growth rate \<open>g\<close> (0.05 when no
  override is given) whose power \<open>(1 + g) ^ forecast_years\<close> neither overflows the doubles
  nor rounds to zero (unless \<open>1 + g\<close> is zero itself), the forecast has exactly
  \<open>forecast_years\<close> elements, and the element at the 1-indexed position \<open>i\<close> is
  \<open>base_fcff * (1 + g) ^ i\<close>, for every \<open>i\<close> in \<open>1..forecast_years\<close>.
\<close>

theorem forecast_fcff_spec:
  assumes "1 \<le> forecast_years"
    and "g = (case growth of None \<Rightarrow> 5 / 100 | Some r \<Rightarrow> r)"
    and "\<not> pow_overflow ((1 + g) ^ nat forecast_years)"
    and "1 + g = 0 \<or> \<not> pow_to_zero ((1 + g) ^ nat forecast_years)"
  shows "\<exists>forecasted. forecast_fcff base_fcff forecast_years growth = Inr forecasted
     \<and> int (length forecasted) = forecast_years
     \<and> (\<forall>i. 1 \<le> i \<and> i \<le> nat forecast_years \<longrightarrow>
          forecasted ! (i - 1) = base_fcff * (1 + g) ^ i)"
proof -
  let ?xs = "map (\<lambda>year. base_fcff * ((1 + g) ^ nat year)) [1..forecast_years]"
  have eq: "forecast_fcff base_fcff forecast_years growth = Inr ?xs"
    by (rule forecast_fcff_eq [OF assms(3,4,2)])
  have len: "int (length ?xs) = forecast_years" using assms(1) by simp
  have nth: "?xs ! (i - 1) = base_fcff * (1 + g) ^ i" if i: "1 \<le> i \<and> i \<le> nat forecast_years" for i
  proof -
    from i have "1 + int (i - 1) \<le> forecast_years" by linarith
    then have nth: "[1..forecast_years] ! (i - 1) = 1 + int (i - 1)"
      by (rule nth_upto)
    have len: "i - 1 < length [1..forecast_years]" using i by auto
    have "nat (1 + int (i - 1)) = i" using i by linarith
    with nth len show ?thesis by simp
  qed
  from eq len nth show ?thesis by blast
qed

theorem forecast_fcff_spec_witness:
  "(1::int) \<le> 3 \<and> \<not> pow_overflow ((1 + 5 / 100) ^ nat 3)
   \<and> \<not> pow_to_zero ((1 + 5 / 100) ^ nat 3)
   \<and> (\<exists>forecasted. forecast_fcff 74 3 None = Inr forecasted \<and> int (length forecasted) = 3
         \<and> forecasted ! 0 = 777 / 10 \<and> forecasted ! 2 = 74 * (105 / 100) ^ 3)"
proof -
  have h1: "(1::int) \<le> 3" by simp
  have h2: "(5 / 100 :: real) = (case None of None \<Rightarrow> 5 / 100 | Some r \<Rightarrow> r)" by simp
  have h3: "\<not> pow_overflow ((1 + 5 / 100) ^ nat 3)"
    and h4: "\<not> pow_to_zero ((1 + 5 / 100) ^ nat 3)"
    by (simp_all add: pow_overflow_def pow_to_zero_def eval_nat_numeral)
  from h4 have h4': "1 + (5 / 100 :: real) = 0 \<or> \<not> pow_to_zero ((1 + 5 / 100) ^ nat 3)" ..
  from forecast_fcff_spec [OF h1 h2 h3 h4', of 74]
  obtain forecasted where eq: "forecast_fcff 74 3 None = Inr forecasted"
    and len: "int (length forecasted) = 3"
    and nth: "\<forall>i. 1 \<le> i \<and> i \<le> nat 3 \<longrightarrow> forecasted ! (i - 1) = 74 * (1 + 5 / 100) ^ i"
    by blast
  from nth [rule_format, of 1] have c: "forecasted ! 0 = 777 / 10" by simp
  from nth [rule_format, of 3] have d: "forecasted ! 2 = 74 * (105 / 100) ^ 3" by simp
  from h1 h3 h4 eq len c d show ?thesis by blast
qed

text \<open>
  Claim C7 as stated fails: with two years and the growth override \<open>2 ^ 600\<close> the power of
  the second year overflows and the operation raises \<^verbatim>\<open>OverflowError\<close>.
\<close>

theorem forecast_fcff_overflow:
  "(1::int) \<le> 2 \<and> forecast_fcff 1 2 (Some (2 ^ 600)) = Inl OverflowError"
  by (simp add: forecast_fcff_def upto_rec1 py_pow_def pow_overflow_def pow_to_zero_def)

text \<open>
  Claim C8. The base FCFF is \<open>ebit * (1 - tax_rate) + depreciation - capex - change_in_wc\<close>,
  an absent depreciation counting as 0; with EBIT 100, tax rate 0.21, depreciation 10,
  capex 15 and no change in working capital it is 74.
\<close>

theorem calculate_fcff_spec:
  "calculate_fcff ebit tax_rate depreciation capex change_in_wc =
     ebit * (1 - tax_rate) + (case depreciation of None \<Rightarrow> 0 | Some d \<Rightarrow> d) - capex - change_in_wc
   \<and> calculate_fcff 100 (21 / 100) (Some 10) 15 0 = 74"
  by (simp add: calculate_fcff_def Let_def split: option.splits)

text \<open>
  Claim C9. The per-share value is 0 when \<open>shares_outstanding = 0\<close> and
  \<open>equity_value / shares_outstanding\<close> otherwise; the division is guarded, so the
  operation never ends in \<open>ZeroDivisionError\<close>.
\<close>

theorem calculate_intrinsic_value_per_share_spec:
  "calculate_intrinsic_value_per_share equity_value shares_outstanding =
     Inr (if shares_outstanding = 0 then 0 else equity_value / shares_outstanding)
   \<and> calculate_intrinsic_value_per_share equity_value shares_outstanding \<noteq> Inl ZeroDivisionError"
  by (simp add: calculate_intrinsic_value_per_share_def py_div_def)

text \<open>
  Claim C10, as amended. For \<open>market_cap \<ge> 0\<close>, \<open>total_debt \<ge> 0\<close> and
  \<open>market_cap + total_debt > 0\<close>, the weighted formula of the WACC, in exact arithmetic, is
  a convex combination of the two costs and lies between their minimum and their maximum.
  In the doubles, with \<open>total_debt = 0\<close>, the operation returns the cost of equity exactly.
\<close>

theorem calculate_wacc_convex:
  assumes "0 \<le> market_cap" "0 \<le> total_debt" "0 < market_cap + total_debt"
  shows "(\<exists>w. calculate_wacc cost_of_equity cost_of_debt market_cap total_debt = Inr w
            \<and> min cost_of_equity cost_of_debt \<le> w \<and> w \<le> max cost_of_equity cost_of_debt)
     \<and> (total_debt = 0 \<and> is_float64 (Fin market_cap) \<and> is_float64 (Fin cost_of_equity) \<longrightarrow>
          calculate_wacc_float64 (Fin cost_of_equity) (Fin cost_of_debt) (Fin market_cap)
            (Fin total_debt) = Inr (Fin cost_of_equity))"
proof (intro conjI impI)
  show "\<exists>w. calculate_wacc cost_of_equity cost_of_debt market_cap total_debt = Inr w
            \<and> min cost_of_equity cost_of_debt \<le> w \<and> w \<le> max cost_of_equity cost_of_debt"
    by (rule calculate_wacc_exact_between [OF assms])
next
  assume a: "total_debt = 0 \<and> is_float64 (Fin market_cap) \<and> is_float64 (Fin cost_of_equity)"
  with assms(3) have "0 < market_cap" by simp
  with a show "calculate_wacc_float64 (Fin cost_of_equity) (Fin cost_of_debt) (Fin market_cap)
            (Fin total_debt) = Inr (Fin cost_of_equity)"
    by (simp add: calculate_wacc_float64_no_debt)
qed

theorem calculate_wacc_convex_witness:
  "(0::real) \<le> 300 \<and> (0::real) \<le> 100 \<and> (0::real) < 300 + 100
   \<and> (\<exists>w. calculate_wacc (1 / 8) (1 / 16) 300 100 = Inr w \<and> 1 / 16 \<le> w \<and> w \<le> 1 / 8)
   \<and> (0::real) \<le> 0 \<and> (0::real) < 300 + 0
   \<and> is_float64 (Fin 300) \<and> is_float64 (Fin (1 / 8))
   \<and> calculate_wacc_float64 (Fin (1 / 8)) (Fin (1 / 16)) (Fin 300) (Fin 0) = Inr (Fin (1 / 8))"
proof -
  have d1: "is_float64 (Fin 300)" and d2: "is_float64 (Fin (1 / 8))"
    by (simp_all add: round_eval)
  from calculate_wacc_convex [of 300 100 "1 / 8" "1 / 16"]
  have a: "\<exists>w. calculate_wacc (1 / 8) (1 / 16) 300 100 = Inr w \<and> 1 / 16 \<le> w \<and> w \<le> 1 / 8"
    by simp
  from calculate_wacc_convex [of 300 0 "1 / 8" "1 / 16"] d1 d2
  have b: "calculate_wacc_float64 (Fin (1 / 8)) (Fin (1 / 16)) (Fin 300) (Fin 0) = Inr (Fin (1 / 8))"
    by simp
  from a b d1 d2 show ?thesis by simp
qed

text \<open>
  Claim C10 as stated fails in the doubles: with both costs 0.75, a market capitalisation
  of 1 and a debt of 4, the rounded weights 0.2 and 0.8 give 0.75 + 2 ^ -53, which is above
  the maximum of the two costs.
\<close>

theorem calculate_wacc_float64_above_max:
  "(0::real) \<le> 1 \<and> (0::real) \<le> 4 \<and> (0::real) < 1 + 4
   \<and> is_float64 (Fin (3 / 4)) \<and> is_float64 (Fin 1) \<and> is_float64 (Fin 4)
   \<and> calculate_wacc_float64 (Fin (3 / 4)) (Fin (3 / 4)) (Fin 1) (Fin 4)
       = Inr (Fin (6755399441055745 / 9007199254740992))
   \<and> max (3 / 4) (3 / 4) < (6755399441055745 / 9007199254740992 :: real)"
  by (simp add: calculate_wacc_float64_def py_div64_def round_eval)

end
